theory Spec2Isabelle
  imports Complex_Main
begin

section \<open>JavaScript values used by the parsers\<close>

text \<open>
  Strings are lists of 8-bit characters. Numbers are \<open>NaN\<close> or an exact rational: the
  rounding of IEEE doubles is not modelled (every value the parsers compute from a money
  token of ordinary size, and every comparison of coordinates, is exact on such values).
\<close>

datatype jsnum = NaN | Num rat

datatype error = TypeError

subsection \<open>Character classes\<close>

definition is_digit :: "char \<Rightarrow> bool" where
  \<comment> \<open>\<open>\d\<close>\<close>
  "is_digit c = (c \<in> set ''0123456789'')"

definition is_alpha :: "char \<Rightarrow> bool" where
  \<comment> \<open>\<open>[A-Za-z]\<close>\<close>
  "is_alpha c = (c \<in> set ''ABCDEFGHIJKLMNOPQRSTUVWXYZabcdefghijklmnopqrstuvwxyz'')"

definition is_space :: "char \<Rightarrow> bool" where
  \<comment> \<open>\<open>\s\<close>, and the characters \<open>trim\<close> removes: tab, LF, VT, FF, CR, space, NBSP\<close>
  "is_space c = (c \<in> set [CHR 0x09, CHR 0x0A, CHR 0x0B, CHR 0x0C, CHR 0x0D, CHR 0x20, CHR 0xA0])"

definition is_numchar :: "char \<Rightarrow> bool" where
  \<comment> \<open>\<open>[\d.,]\<close>\<close>
  "is_numchar c = (is_digit c \<or> c = CHR ''.'' \<or> c = CHR '','')"

definition is_sign :: "char \<Rightarrow> bool" where
  \<comment> \<open>\<open>[-+]\<close>\<close>
  "is_sign c = (c = CHR ''-'' \<or> c = CHR ''+'')"

subsection \<open>Regular expressions\<close>

text \<open>
  Every pattern of the source is anchored at both ends (\<open>^...$\<close>, no flags), so
  \<open>rgx.test(s)\<close> is membership of the whole string in the pattern's language, decided
  here by derivatives.
\<close>

datatype rx =
    Never
  | Eps
  | Cls "char \<Rightarrow> bool"
  | Seq rx rx
  | Alt rx rx
  | Star rx

fun nullable :: "rx \<Rightarrow> bool" where
  "nullable Never = False"
| "nullable Eps = True"
| "nullable (Cls P) = False"
| "nullable (Seq r s) = (nullable r \<and> nullable s)"
| "nullable (Alt r s) = (nullable r \<or> nullable s)"
| "nullable (Star r) = True"

fun deriv :: "char \<Rightarrow> rx \<Rightarrow> rx" where
  "deriv c Never = Never"
| "deriv c Eps = Never"
| "deriv c (Cls P) = (if P c then Eps else Never)"
| "deriv c (Seq r s) =
     (if nullable r then Alt (Seq (deriv c r) s) (deriv c s) else Seq (deriv c r) s)"
| "deriv c (Alt r s) = Alt (deriv c r) (deriv c s)"
| "deriv c (Star r) = Seq (deriv c r) (Star r)"

fun rx_test :: "rx \<Rightarrow> string \<Rightarrow> bool" where
  "rx_test r [] = nullable r"
| "rx_test r (c # cs) = rx_test (deriv c r) cs"

definition Lit :: "char \<Rightarrow> rx" where
  "Lit c = Cls (\<lambda>d. d = c)"

definition Plus :: "rx \<Rightarrow> rx" where
  \<comment> \<open>\<open>r+\<close>\<close>
  "Plus r = Seq r (Star r)"

definition Opt :: "rx \<Rightarrow> rx" where
  \<comment> \<open>\<open>r?\<close>\<close>
  "Opt r = Alt r Eps"

fun Seqs :: "rx list \<Rightarrow> rx" where
  "Seqs [] = Eps"
| "Seqs [r] = r"
| "Seqs (r # rs) = Seq r (Seqs rs)"

abbreviation D :: rx where
  "D \<equiv> Cls is_digit"

subsection \<open>String operations\<close>

definition lower_char :: "char \<Rightarrow> char" where
  "lower_char c =
     (if c \<in> set ''ABCDEFGHIJKLMNOPQRSTUVWXYZ'' then char_of (of_char c + (32::nat)) else c)"

definition upper_char :: "char \<Rightarrow> char" where
  "upper_char c =
     (if c \<in> set ''abcdefghijklmnopqrstuvwxyz'' then char_of (of_char c - (32::nat)) else c)"

definition toLowerCase :: "string \<Rightarrow> string" where
  \<comment> \<open>on ASCII letters; other characters are kept\<close>
  "toLowerCase s = map lower_char s"

definition toUpperCase :: "string \<Rightarrow> string" where
  "toUpperCase s = map upper_char s"

fun startsWith :: "string \<Rightarrow> string \<Rightarrow> bool" where
  "startsWith s [] = True"
| "startsWith [] (p # ps) = False"
| "startsWith (c # cs) (p # ps) = (c = p \<and> startsWith cs ps)"

fun includesStr :: "string \<Rightarrow> string \<Rightarrow> bool" where
  \<comment> \<open>\<open>s.includes(p)\<close>: \<open>p\<close> occurs in \<open>s\<close>\<close>
  "includesStr [] p = (p = [])"
| "includesStr (c # cs) p = (startsWith (c # cs) p \<or> includesStr cs p)"

definition trim :: "string \<Rightarrow> string" where
  "trim s = rev (dropWhile is_space (rev (dropWhile is_space s)))"

fun split :: "char \<Rightarrow> string \<Rightarrow> string list" where
  \<comment> \<open>\<open>s.split(sep)\<close> for a one-character separator; never empty\<close>
  "split sep [] = [[]]"
| "split sep (c # cs) =
     (if c = sep then [] # split sep cs
      else (case split sep cs of [] \<Rightarrow> [[c]] | p # ps \<Rightarrow> (c # p) # ps))"

fun join :: "string \<Rightarrow> string list \<Rightarrow> string" where
  \<comment> \<open>\<open>xs.join(sep)\<close>\<close>
  "join sep [] = []"
| "join sep [x] = x"
| "join sep (x # xs) = x @ sep @ join sep xs"

definition remove_char :: "char \<Rightarrow> string \<Rightarrow> string" where
  \<comment> \<open>\<open>s.replace(/c/g, '')\<close>\<close>
  "remove_char c s = filter (\<lambda>d. d \<noteq> c) s"

fun replace_first :: "char \<Rightarrow> char \<Rightarrow> string \<Rightarrow> string" where
  \<comment> \<open>\<open>s.replace(c, d)\<close> with a string pattern: the first occurrence only\<close>
  "replace_first c d [] = []"
| "replace_first c d (x # xs) = (if x = c then d # xs else x # replace_first c d xs)"

subsection \<open>Parsing numbers\<close>

definition digit_val :: "char \<Rightarrow> int" where
  "digit_val c = of_char c - 48"

definition digits_val :: "string \<Rightarrow> int" where
  "digits_val s = foldl (\<lambda>a c. 10 * a + digit_val c) 0 s"

definition parseFloat :: "string \<Rightarrow> jsnum" where
  \<comment> \<open>\<open>parseFloat(s)\<close>: leading white space, a sign, digits, a fraction; the longest
      such prefix, \<open>NaN\<close> when it has no digit. Exponents and \<open>Infinity\<close> are left out:
      every call passes text that matched a money pattern (digits, \<open>.\<close>, \<open>,\<close>, a sign).\<close>
  "parseFloat s =
     (let t = dropWhile is_space s;
          neg = startsWith t ''-'';
          u = (if startsWith t ''-'' \<or> startsWith t ''+'' then tl t else t);
          ip = takeWhile is_digit u;
          rest = dropWhile is_digit u;
          fp = (if startsWith rest ''.'' then takeWhile is_digit (tl rest) else [])
      in if ip = [] \<and> fp = [] then NaN
         else let v = of_int (digits_val ip) + of_int (digits_val fp) / 10 ^ length fp
              in Num (if neg then - v else v))"

definition parseInt :: "string \<Rightarrow> jsnum" where
  \<comment> \<open>\<open>parseInt(s, 10)\<close>\<close>
  "parseInt s =
     (let t = dropWhile is_space s;
          neg = startsWith t ''-'';
          u = (if startsWith t ''-'' \<or> startsWith t ''+'' then tl t else t);
          ip = takeWhile is_digit u
      in if ip = [] then NaN
         else Num (if neg then - of_int (digits_val ip) else of_int (digits_val ip)))"

section \<open>Tokens and records\<close>

text \<open>
  Of a text item of the page the parsers read the string and the two translation entries
  of its transform, here exact rationals.
\<close>

record TextItem =
  str :: string
  tx :: rat  \<comment> \<open>\<open>transform[4]\<close>\<close>
  ty :: rat  \<comment> \<open>\<open>transform[5]\<close>\<close>

datatype trxtype = debit | credit | saldo_awal

record TrxRecord =
  tahun :: jsnum
  tgl :: string
  ket :: string
  type :: trxtype
  mutasi :: jsnum
  saldo :: jsnum

fun findIndexFrom :: "nat \<Rightarrow> ('a \<Rightarrow> nat \<Rightarrow> bool) \<Rightarrow> 'a list \<Rightarrow> nat option" where
  "findIndexFrom i P [] = None"
| "findIndexFrom i P (x # xs) = (if P x i then Some i else findIndexFrom (Suc i) P xs)"

definition findIndex :: "('a \<Rightarrow> nat \<Rightarrow> bool) \<Rightarrow> 'a list \<Rightarrow> nat option" where
  \<comment> \<open>\<open>xs.findIndex((x, idx) => P)\<close>, \<open>None\<close> for -1\<close>
  "findIndex P xs = findIndexFrom 0 P xs"

section \<open>The sequential statement parser\<close>

definition dateRgx :: rx where
  \<comment> \<open>\<open>/^(0[1-9]|[12][0-9]|3[01])\/(0[1-9]|1[0-2])$/\<close>\<close>
  "dateRgx =
     Seqs [Alt (Seq (Lit CHR ''0'') (Cls (\<lambda>c. c \<in> set ''123456789'')))
            (Alt (Seq (Cls (\<lambda>c. c \<in> set ''12'')) D)
                 (Seq (Lit CHR ''3'') (Cls (\<lambda>c. c \<in> set ''01'')))),
           Lit CHR ''/'',
           Alt (Seq (Lit CHR ''0'') (Cls (\<lambda>c. c \<in> set ''123456789'')))
               (Seq (Lit CHR ''1'') (Cls (\<lambda>c. c \<in> set ''012'')))]"

definition moneyRgx :: rx where
  \<comment> \<open>\<open>/^\d{1,3}(,\d{3})*\.\d{2}$/\<close>\<close>
  "moneyRgx =
     Seqs [D, Opt D, Opt D, Star (Seqs [Lit CHR '','', D, D, D]), Lit CHR ''.'', D, D]"

definition end_marker :: "string \<Rightarrow> bool" where
  \<comment> \<open>"saldo awal :" or "bersambung ke halaman" in the lower-cased token\<close>
  "end_marker s =
     (includesStr (toLowerCase s) ''saldo awal :''
      \<or> includesStr (toLowerCase s) ''bersambung ke halaman'')"

text \<open>
  The two nested \<open>while\<close> loops of \<open>parseBCAItems\<close> are two recursive functions over
  the index; one iteration of each is a step that continues, breaks or throws. The only
  expression of the function that can throw is the read of \<open>items[currentIdx + 2].str\<close>.
\<close>

datatype 'a flow = Continue 'a | Break 'a | Throw error

record scan_state =
  scanIdx :: nat  \<comment> \<open>\<open>currentIdx\<close> inside the inner loop\<close>
  scanRecord :: TrxRecord  \<comment> \<open>\<open>currentRecord\<close>\<close>
  foundMutasi :: bool
  detailLines :: "string list"

definition after_item :: "string \<Rightarrow> scan_state \<Rightarrow> scan_state flow" where
  \<comment> \<open>the end-marker test that closes an iteration of the inner loop\<close>
  "after_item nextItem st = (if end_marker nextItem then Break st else Continue st)"

definition detailStep :: "TextItem list \<Rightarrow> scan_state \<Rightarrow> scan_state flow" where
  \<comment> \<open>one iteration of the inner \<open>while (currentIdx < items.length)\<close>; reading
      \<open>items[currentIdx + 2].str\<close> past the end of the array throws\<close>
  "detailStep items st =
     (let i = scanIdx st; nextItem = str (items ! i) in
      if rx_test dateRgx nextItem then Break st
      else
        let st1 = (if \<not> foundMutasi st \<and> \<not> rx_test moneyRgx nextItem
                   then st\<lparr>detailLines := detailLines st @ [nextItem]\<rparr> else st)
        in
        if rx_test moneyRgx nextItem then
          (let amount = parseFloat (remove_char CHR '','' nextItem);
               other =
                 (if \<not> foundMutasi st1 then
                    after_item nextItem
                      (st1\<lparr>scanRecord := (scanRecord st1)\<lparr>type := credit, mutasi := amount\<rparr>,
                           foundMutasi := True, scanIdx := i + 1\<rparr>)
                  else Break (st1\<lparr>scanRecord := (scanRecord st1)\<lparr>saldo := amount\<rparr>,
                                  scanIdx := i + 1\<rparr>))
           in
           if i + 1 < length items then
             (if i + 2 < length items then
                (if str (items ! (i + 2)) = ''DB'' then
                   after_item nextItem
                     (st1\<lparr>scanRecord := (scanRecord st1)\<lparr>type := debit, mutasi := amount\<rparr>,
                          scanIdx := i + 2, foundMutasi := True\<rparr>)
                 else other)
              else Throw TypeError)
           else other)
        else after_item nextItem (st1\<lparr>scanIdx := i + 1\<rparr>))"

lemma detailStep_Continue_idx:
  "detailStep items st = Continue st' \<Longrightarrow> scanIdx st < scanIdx st'"
  by (auto simp: detailStep_def after_item_def Let_def split: if_splits)

function scanDetail :: "TextItem list \<Rightarrow> scan_state \<Rightarrow> error + scan_state" where
  "scanDetail items st =
     (if scanIdx st < length items then
        (case detailStep items st of
           Continue st' \<Rightarrow> scanDetail items st'
         | Break st' \<Rightarrow> Inr st'
         | Throw e \<Rightarrow> Inl e)
      else Inr st)"
  by pat_completeness auto
termination
  by (relation "measure (\<lambda>(items, st). length items - scanIdx st)")
     (auto dest: detailStep_Continue_idx)

declare scanDetail.simps [simp del]

record page_state =
  currentIdx :: nat
  currentRecord :: "TrxRecord option"
  txrecs :: "TrxRecord list"

definition push_current :: "TrxRecord option \<Rightarrow> TrxRecord list \<Rightarrow> TrxRecord list" where
  \<comment> \<open>\<open>if (currentRecord && currentRecord.tgl) txrecs.push(currentRecord)\<close>\<close>
  "push_current cur recs =
     (case cur of None \<Rightarrow> recs | Some r \<Rightarrow> if tgl r \<noteq> [] then recs @ [r] else recs)"

definition add_details :: "string list \<Rightarrow> TrxRecord \<Rightarrow> TrxRecord" where
  "add_details details r =
     (if length details > 0 then
        (if ket r \<noteq> [] then r\<lparr>ket := ket r @ '' '' @ trim (join '' '' details)\<rparr>
         else r\<lparr>ket := trim (join '' '' details)\<rparr>)
      else r)"

definition mark_saldo_awal :: "TrxRecord \<Rightarrow> TrxRecord" where
  "mark_saldo_awal r = (if toUpperCase (ket r) = ''SALDO AWAL'' then r\<lparr>type := saldo_awal\<rparr> else r)"

definition pageStep :: "jsnum \<Rightarrow> TextItem list \<Rightarrow> page_state \<Rightarrow> page_state flow" where
  \<comment> \<open>one iteration of the outer \<open>while (currentIdx < items.length)\<close>\<close>
  "pageStep year items st =
     (let i = currentIdx st; item = str (items ! i) in
      if end_marker item then Break st
      else if rx_test dateRgx item then
        (let recs = push_current (currentRecord st) (txrecs st);
             r0 = \<lparr>tahun = year, tgl = item, ket = [], type = credit,
                   mutasi = Num 0, saldo = Num 0\<rparr>;
             i1 = i + 1;
             r1 = (if i1 < length items then r0\<lparr>ket := str (items ! i1)\<rparr> else r0);
             i2 = (if i1 < length items then i1 + 1 else i1);
             i3 = (if i2 < length items \<and> str (items ! i2) = ''CBG'' then i2 + 2 else i2)
         in case scanDetail items
                   \<lparr>scanIdx = i3, scanRecord = r1, foundMutasi = False, detailLines = []\<rparr> of
              Inl e \<Rightarrow> Throw e
            | Inr s \<Rightarrow>
                Continue \<lparr>currentIdx = scanIdx s,
                          currentRecord =
                            Some (mark_saldo_awal (add_details (detailLines s) (scanRecord s))),
                          txrecs = recs\<rparr>)
      else
        Continue (st\<lparr>currentRecord :=
                       (case currentRecord st of
                          None \<Rightarrow> None
                        | Some r \<Rightarrow>
                            if \<not> rx_test dateRgx item \<and> \<not> rx_test moneyRgx item
                               \<and> item \<noteq> ''DB'' \<and> item \<noteq> ''CR''
                            then Some (r\<lparr>ket := ket r @ '' '' @ item\<rparr>) else Some r),
                     currentIdx := i + 1\<rparr>))"

lemma scanDetail_idx_mono: "scanDetail items st = Inr st' \<Longrightarrow> scanIdx st \<le> scanIdx st'"
proof (induction items st rule: scanDetail.induct)
  case (1 items st)
  show ?case
  proof (cases "scanIdx st < length items")
    case False
    with "1.prems" show ?thesis by (simp add: scanDetail.simps)
  next
    case True
    show ?thesis
    proof (cases "detailStep items st")
      case (Continue s)
      with True "1.prems" have "scanDetail items s = Inr st'"
        by (simp add: scanDetail.simps [of items st])
      with "1.IH" True Continue have "scanIdx s \<le> scanIdx st'" by simp
      with detailStep_Continue_idx [OF Continue] show ?thesis by simp
    next
      case (Break s)
      with True "1.prems" have "s = st'" by (simp add: scanDetail.simps [of items st])
      with Break show ?thesis
        by (auto simp: detailStep_def after_item_def Let_def split: if_splits)
    next
      case (Throw e)
      with True "1.prems" show ?thesis by (simp add: scanDetail.simps [of items st])
    qed
  qed
qed

lemma pageStep_Continue_idx:
  "pageStep year items st = Continue st' \<Longrightarrow> currentIdx st < currentIdx st'"
  by (auto simp: pageStep_def Let_def split: if_splits sum.splits
           dest!: scanDetail_idx_mono)

function scanPage :: "jsnum \<Rightarrow> TextItem list \<Rightarrow> page_state \<Rightarrow> error + page_state" where
  "scanPage year items st =
     (if currentIdx st < length items then
        (case pageStep year items st of
           Continue st' \<Rightarrow> scanPage year items st'
         | Break st' \<Rightarrow> Inr st'
         | Throw e \<Rightarrow> Inl e)
      else Inr st)"
  by pat_completeness auto
termination
  by (relation "measure (\<lambda>(year, items, st). length items - currentIdx st)")
     (auto dest: pageStep_Continue_idx)

declare scanPage.simps [simp del]

definition findPeriode :: "TextItem list \<Rightarrow> nat \<Rightarrow> string" where
  \<comment> \<open>the first of the tokens \<open>periodeIdx + 1 .. periodeIdx + 9\<close> that contains "20",
      the empty string when there is none\<close>
  "findPeriode items periodeIdx =
     (case find (\<lambda>r. includesStr (str r) ''20'') (take 9 (drop (periodeIdx + 1) items)) of
        None \<Rightarrow> []
      | Some r \<Rightarrow> str r)"

definition parseBCARows :: "jsnum \<Rightarrow> TextItem list \<Rightarrow> error + TrxRecord list" where
  \<comment> \<open>\<open>parseBCAItems\<close> from "Find transaction table start" on, the year resolved\<close>
  "parseBCARows year items =
     (case findIndex (\<lambda>r idx. str r = ''TANGGAL'') items of
        None \<Rightarrow> Inr []
      | Some tanggalHeaderIdx \<Rightarrow>
        (case findIndex (\<lambda>r idx. int idx > int tanggalHeaderIdx - 5
                                \<and> idx < tanggalHeaderIdx + 5
                                \<and> str r = ''KETERANGAN'') items of
           None \<Rightarrow> Inr []
         | Some keteranganIdx \<Rightarrow>
           (case findIndex (\<lambda>r idx. idx \<ge> tanggalHeaderIdx + 1 \<and> rx_test dateRgx (str r)) items of
              None \<Rightarrow> Inr []
            | Some startRowIdx \<Rightarrow>
              (case scanPage year items
                      \<lparr>currentIdx = startRowIdx, currentRecord = None, txrecs = []\<rparr> of
                 Inl e \<Rightarrow> Inl e
               | Inr st \<Rightarrow> Inr (push_current (currentRecord st) (txrecs st))))))"

definition parseBCAItems :: "TextItem list \<Rightarrow> error + TrxRecord list" where
  "parseBCAItems items =
     (case findIndex (\<lambda>r idx. str r = ''PERIODE'') items of
        None \<Rightarrow> Inr []
      | Some periodeIdx \<Rightarrow>
        (let periode = findPeriode items periodeIdx;
             periodParts = split CHR '' '' (trim periode);
             year = parseInt (last periodParts)
         in parseBCARows year items))"


section \<open>The row, direct and pattern parsers\<close>

record PositionedItem =
  p_id :: nat  \<comment> \<open>the object's identity (\<open>!==\<close> compares it): the token's index in the page\<close>
  p_text :: string
  p_x :: rat
  p_y :: rat

definition posItems :: "TextItem list \<Rightarrow> PositionedItem list" where
  "posItems items =
     map (\<lambda>(i, item). \<lparr>p_id = i, p_text = str item, p_x = tx item, p_y = ty item\<rparr>)
         (enumerate 0 items)"

definition math_round :: "rat \<Rightarrow> int" where
  \<comment> \<open>\<open>Math.round\<close>: to the nearest integer, a half towards \<open>+\<infinity>\<close>\<close>
  "math_round q = \<lfloor>q + 1 / 2\<rfloor>"

fun insert_by :: "('a \<Rightarrow> 'a \<Rightarrow> rat) \<Rightarrow> 'a \<Rightarrow> 'a list \<Rightarrow> 'a list" where
  "insert_by cmp v [] = [v]"
| "insert_by cmp v (w # ws) = (if cmp v w \<le> 0 then v # w # ws else w # insert_by cmp v ws)"

definition jsort :: "('a \<Rightarrow> 'a \<Rightarrow> rat) \<Rightarrow> 'a list \<Rightarrow> 'a list" where
  \<comment> \<open>\<open>xs.sort(cmp)\<close> as a stable insertion sort: the result of every stable sort when
      \<open>cmp\<close> is a consistent order (otherwise the language leaves the order open)\<close>
  "jsort cmp xs = foldr (insert_by cmp) xs []"

fun add_to_group :: "int \<Rightarrow> 'a \<Rightarrow> (int \<times> 'a list) list \<Rightarrow> (int \<times> 'a list) list" where
  \<comment> \<open>\<open>if (!m.has(k)) m.set(k, []); m.get(k).push(v)\<close> on a \<open>Map\<close>, kept in insertion order\<close>
  "add_to_group k v [] = [(k, [v])]"
| "add_to_group k v ((k', vs) # rest) =
     (if k' = k then (k', vs @ [v]) # rest else (k', vs) # add_to_group k v rest)"

definition groupIntoRows :: "PositionedItem list \<Rightarrow> PositionedItem list list" where
  "groupIntoRows items =
     map snd
       (jsort (\<lambda>a b. of_int (fst b) - of_int (fst a))
          (foldl (\<lambda>rows item. add_to_group (math_round (p_y item / 2) * 2) item rows) [] items))"

definition findHeaderRow :: "PositionedItem list list \<Rightarrow> nat option" where
  "findHeaderRow rows =
     findIndex (\<lambda>row i.
        let rowTexts = map (\<lambda>item. toLowerCase (p_text item)) row
        in (''no'' \<in> set rowTexts \<and> ''tanggal'' \<in> set rowTexts)
           \<or> (''no'' \<in> set rowTexts \<and> ''date'' \<in> set rowTexts)) rows"

definition intRgx :: rx where
  \<comment> \<open>\<open>/^\d+$/\<close>\<close>
  "intRgx = Plus D"

definition dateLongRgx :: rx where
  \<comment> \<open>\<open>/^\d{2}\s+[A-Za-z]{3}\s+\d{4}$/\<close>\<close>
  "dateLongRgx =
     Seqs [D, D, Plus (Cls is_space), Cls is_alpha, Cls is_alpha, Cls is_alpha,
           Plus (Cls is_space), D, D, D, D]"

definition dateLongDupRgx :: rx where
  \<comment> \<open>\<open>/^\d{2}\s+[A-Za-z]{3}\s+\d{4}\/\d{4}$/\<close>\<close>
  "dateLongDupRgx =
     Seqs [D, D, Plus (Cls is_space), Cls is_alpha, Cls is_alpha, Cls is_alpha,
           Plus (Cls is_space), D, D, D, D, Lit CHR ''/'', D, D, D, D]"

definition plainNumRgx :: rx where
  \<comment> \<open>\<open>/^[\d.,]+,\d{2}$/\<close>\<close>
  "plainNumRgx = Seqs [Plus (Cls is_numchar), Lit CHR '','', D, D]"

definition negNumRgx :: rx where
  \<comment> \<open>\<open>/^-[\d.,]+,\d{2}$/\<close>\<close>
  "negNumRgx = Seqs [Lit CHR ''-'', Plus (Cls is_numchar), Lit CHR '','', D, D]"

definition posNumRgx :: rx where
  \<comment> \<open>\<open>/^\+[\d.,]+,\d{2}$/\<close>\<close>
  "posNumRgx = Seqs [Lit CHR ''+'', Plus (Cls is_numchar), Lit CHR '','', D, D]"

definition signedNumRgx :: rx where
  \<comment> \<open>\<open>/^[-+]?[\d.,]+,\d{2}$/\<close>\<close>
  "signedNumRgx = Seqs [Opt (Cls is_sign), Plus (Cls is_numchar), Lit CHR '','', D, D]"

definition minusNumRgx :: rx where
  \<comment> \<open>\<open>/^-?[\d.,]+,\d{2}$/\<close>\<close>
  "minusNumRgx = Seqs [Opt (Lit CHR ''-''), Plus (Cls is_numchar), Lit CHR '','', D, D]"

definition timeRgx :: rx where
  \<comment> \<open>\<open>/^\d{2}:\d{2}:\d{2}\s+WIB$/\<close>\<close>
  "timeRgx =
     Seqs [D, D, Lit CHR '':'', D, D, Lit CHR '':'', D, D, Plus (Cls is_space),
           Lit CHR ''W'', Lit CHR ''I'', Lit CHR ''B'']"

definition trailingNumRgx :: rx where
  \<comment> \<open>\<open>/\s+\d+\s*$/\<close>, matched against a suffix\<close>
  "trailingNumRgx = Seqs [Plus (Cls is_space), Plus D, Star (Cls is_space)]"

fun strip_trailing_number :: "string \<Rightarrow> string" where
  \<comment> \<open>\<open>s.replace(/\s+\d+\s*$/, '')\<close>: cut at the leftmost position whose suffix matches\<close>
  "strip_trailing_number [] = []"
| "strip_trailing_number (c # cs) =
     (if rx_test trailingNumRgx (c # cs) then [] else c # strip_trailing_number cs)"

definition remove_signs :: "string \<Rightarrow> string" where
  \<comment> \<open>\<open>s.replace(/[+-]/g, '')\<close>\<close>
  "remove_signs s = filter (\<lambda>c. c \<noteq> CHR ''+'' \<and> c \<noteq> CHR ''-'') s"

definition localClean :: "string \<Rightarrow> string" where
  \<comment> \<open>\<open>s.replace(/\./g, '').replace(',', '.')\<close>\<close>
  "localClean s = replace_first CHR '','' CHR ''.'' (remove_char CHR ''.'' s)"

definition js_times :: "jsnum \<Rightarrow> jsnum \<Rightarrow> jsnum" where
  "js_times a b = (case (a, b) of (Num p, Num q) \<Rightarrow> Num (p * q) | _ \<Rightarrow> NaN)"

definition math_abs :: "jsnum \<Rightarrow> jsnum" where
  "math_abs a = (case a of Num p \<Rightarrow> Num \<bar>p\<bar> | NaN \<Rightarrow> NaN)"

definition classify :: "bool \<Rightarrow> string \<Rightarrow> trxtype" where
  \<comment> \<open>the kind of a record of the second format: by sign, "saldo awal" in the
      description overriding it\<close>
  "classify isNegative description =
     (if includesStr (toLowerCase description) ''saldo awal'' then saldo_awal
      else if isNegative then debit else credit)"

definition cleanDate :: "string \<Rightarrow> string" where
  \<comment> \<open>\<open>if (dateText.includes('/')) dateText = dateText.split('/')[0]\<close>\<close>
  "cleanDate dateText =
     (if includesStr dateText ''/''
      then (case split CHR ''/'' dateText of [] \<Rightarrow> dateText | part # _ \<Rightarrow> part)
      else dateText)"

definition formatDate :: "string \<Rightarrow> string" where
  \<comment> \<open>\<open>dateParts = s.split(' ')\<close> and the template \<open>`${dateParts[0]} ${dateParts[1]}`\<close>,
      which prints a missing part as "undefined"\<close>
  "formatDate s =
     (case split CHR '' '' s of
        [] \<Rightarrow> ''undefined undefined''
      | [d] \<Rightarrow> d @ '' undefined''
      | d # m # _ \<Rightarrow> d @ '' '' @ m)"

definition mandiriRow :: "jsnum \<Rightarrow> PositionedItem list \<Rightarrow> TrxRecord option" where
  \<comment> \<open>the body of the loop over rows in \<open>parseMandiriPage\<close>; \<open>None\<close> is \<open>continue\<close>\<close>
  "mandiriRow year row =
     (if length row = 0 then None
      else if \<not> rx_test intRgx (p_text (row ! 0)) then None
      else
        (case find (\<lambda>item. rx_test dateLongRgx (p_text item)
                          \<or> rx_test dateLongDupRgx (p_text item)) row of
          None \<Rightarrow> None
        | Some dateItem \<Rightarrow>
          (let dateText = cleanDate (p_text dateItem)
           in
           (case find (\<lambda>item. rx_test negNumRgx (p_text item)
                             \<or> rx_test posNumRgx (p_text item)
                             \<or> rx_test plainNumRgx (p_text item)) row of
             None \<Rightarrow> None
           | Some amountItem \<Rightarrow>
             (let isNegative = startsWith (p_text amountItem) ''-'';
                  amountClean = remove_signs (localClean (p_text amountItem));
                  amount = js_times (parseFloat amountClean)
                             (Num (if isNegative then - 1 else 1));
                  remainingItems =
                    jsort (\<lambda>a b. p_x b - p_x a)
                      (filter (\<lambda>item. p_id item \<noteq> p_id amountItem
                                      \<and> rx_test plainNumRgx (p_text item)) row)
              in
              (case remainingItems of
                 [] \<Rightarrow> None
               | balanceItem # _ \<Rightarrow>
                 (let balance = parseFloat (localClean (p_text balanceItem));
                      descItems =
                        jsort (\<lambda>a b. if \<bar>p_y a - p_y b\<bar> > 5 then p_y b - p_y a
                                      else p_x a - p_x b)
                          (filter (\<lambda>item. p_id item \<noteq> p_id amountItem
                                          \<and> p_id item \<noteq> p_id balanceItem
                                          \<and> p_id item \<noteq> p_id dateItem
                                          \<and> \<not> rx_test timeRgx (p_text item)) row);
                      description = trim (join '' '' (map p_text descItems))
                  in Some \<lparr>tahun = year, tgl = dateText, ket = description,
                           type = classify isNegative description,
                           mutasi = math_abs amount, saldo = balance\<rparr>)))))))"

definition parseMandiriPage :: "TextItem list \<Rightarrow> jsnum \<Rightarrow> TrxRecord list" where
  "parseMandiriPage items year =
     (let rows = groupIntoRows (posItems items) in
      case findHeaderRow rows of
        None \<Rightarrow> []
      | Some headerRow \<Rightarrow> List.map_filter (mandiriRow year) (drop (headerRow + 1) rows))"

definition directDate ::
  "jsnum \<Rightarrow> PositionedItem list \<Rightarrow> PositionedItem list \<Rightarrow> PositionedItem \<Rightarrow> TrxRecord option"
where
  \<comment> \<open>the body of the loop over \<open>dates\<close> in \<open>parseDirectTransactions\<close>\<close>
  "directDate year numbers allItems date =
     (let relatedNumbers =
            jsort (\<lambda>a b. p_x a - p_x b)
              (filter (\<lambda>num. \<bar>p_y num - p_y date\<bar> < 20) numbers)
      in
      if length relatedNumbers < 2 then None
      else
        let balanceItem = last relatedNumbers;
            amountItem =
              (case find (\<lambda>num. startsWith (p_text num) ''-'' \<or> startsWith (p_text num) ''+'')
                      relatedNumbers of
                 Some num \<Rightarrow> num
               | None \<Rightarrow> relatedNumbers ! (length relatedNumbers - 2));
            balance = parseFloat (localClean (p_text balanceItem));
            isNegative = startsWith (p_text amountItem) ''-'';
            amount = parseFloat (remove_signs (localClean (p_text amountItem)));
            nearbyItems =
              filter (\<lambda>item. \<bar>p_y item - p_y date\<bar> < 25
                        \<and> (p_id item \<noteq> p_id date
                           \<and> p_id item \<noteq> p_id amountItem
                           \<and> p_id item \<noteq> p_id balanceItem
                           \<and> \<not> rx_test timeRgx (p_text item)
                           \<and> \<not> rx_test signedNumRgx (p_text item))) allItems;
            description =
              strip_trailing_number (trim (join '' '' (map p_text nearbyItems)));
            formattedDate = formatDate (p_text date)
        in Some \<lparr>tahun = year, tgl = formattedDate, ket = description,
                 type = classify isNegative description,
                 mutasi = amount, saldo = balance\<rparr>)"

definition parseDirectTransactions :: "TextItem list \<Rightarrow> jsnum \<Rightarrow> TrxRecord list" where
  "parseDirectTransactions items year =
     (let allItems = posItems items;
          dates = filter (\<lambda>item. rx_test dateLongRgx (p_text item)) allItems;
          numbers = filter (\<lambda>item. rx_test signedNumRgx (p_text item)) allItems
      in List.map_filter (directDate year numbers allItems) dates)"

definition patternLine :: "jsnum \<Rightarrow> PositionedItem list \<Rightarrow> TrxRecord option" where
  \<comment> \<open>the body of the loop over lines in \<open>parsePatternBased\<close>\<close>
  "patternLine year line =
     (if length line = 0 then None
      else if \<not> rx_test intRgx (p_text (line ! 0)) then None
      else
        case find (\<lambda>item. rx_test dateLongRgx (p_text item)) line of
          None \<Rightarrow> None
        | Some dateItem \<Rightarrow>
          let numberItems = filter (\<lambda>item. rx_test minusNumRgx (p_text item)) line in
          if length numberItems < 2 then None
          else
            let balanceItem = numberItems ! (length numberItems - 1);
                amountItem = numberItems ! (length numberItems - 2);
                isNegative = startsWith (p_text amountItem) ''-'';
                amountValue = parseFloat (remove_signs (localClean (p_text amountItem)));
                balanceValue = parseFloat (localClean (p_text balanceItem));
                startX = max (p_x (line ! 0)) (p_x dateItem);
                description =
                  trim (concat (map (\<lambda>item. p_text item @ '' '')
                     (filter (\<lambda>item. p_x item > startX \<and> p_x item < p_x amountItem
                                \<and> p_id item \<noteq> p_id dateItem
                                \<and> \<not> rx_test timeRgx (p_text item)) line)))
            in Some \<lparr>tahun = year, tgl = p_text dateItem, ket = description,
                     type = classify isNegative description,
                     mutasi = amountValue, saldo = balanceValue\<rparr>)"

definition patternLines :: "TextItem list \<Rightarrow> PositionedItem list list" where
  \<comment> \<open>the lines of \<open>parsePatternBased\<close>: tokens grouped by rounded y, each group sorted
      by x, the groups from the top of the page down\<close>
  "patternLines items =
     (let allText = posItems items;
          yGroups =
            map (\<lambda>(k, g). (k, jsort (\<lambda>a b. p_x a - p_x b) g))
              (foldl (\<lambda>groups item. add_to_group (math_round (p_y item)) item groups) [] allText);
          sortedY = jsort (\<lambda>a b. of_int b - of_int a) (map fst yGroups)
      in map (\<lambda>k. case map_of yGroups k of None \<Rightarrow> [] | Some g \<Rightarrow> g) sortedY)"

definition parsePatternBased :: "TextItem list \<Rightarrow> jsnum \<Rightarrow> TrxRecord list" where
  "parsePatternBased items year = List.map_filter (patternLine year) (patternLines items)"

section \<open>The statement of the second format\<close>

text \<open>
  \<open>parseMandiriStatement\<close> gets the pages from the document reader; here it takes the
  token lists of the pages, the first page apart since a document has one. The reader
  and its password callbacks are outside the parsers.
\<close>

definition pageText :: "TextItem list \<Rightarrow> string" where
  \<comment> \<open>\<open>items.map(item => item.str).join(' ')\<close>\<close>
  "pageText items = join '' '' (map str items)"

definition periodRgx :: rx where
  \<comment> \<open>\<open>/(\d{2}\s+[A-Za-z]{3}\s+\d{4})\s*-\s*(\d{2}\s+[A-Za-z]{3}\s+\d{4})/\<close>\<close>
  "periodRgx =
     Seqs [D, D, Plus (Cls is_space), Cls is_alpha, Cls is_alpha, Cls is_alpha,
           Plus (Cls is_space), D, D, D, D,
           Star (Cls is_space), Lit CHR ''-'', Star (Cls is_space),
           D, D, Plus (Cls is_space), Cls is_alpha, Cls is_alpha, Cls is_alpha,
           Plus (Cls is_space), D, D, D, D]"

fun rx_prefix :: "rx \<Rightarrow> string \<Rightarrow> bool" where
  \<comment> \<open>the pattern matches at the start of the string\<close>
  "rx_prefix r [] = nullable r"
| "rx_prefix r (c # cs) = (nullable r \<or> rx_prefix (deriv c r) cs)"

fun rx_search :: "rx \<Rightarrow> string \<Rightarrow> string option" where
  \<comment> \<open>\<open>s.match(r)\<close> for a pattern with no anchor: the rest of the string from the
      leftmost position where the pattern matches\<close>
  "rx_search r [] = (if nullable r then Some [] else None)"
| "rx_search r (c # cs) = (if rx_prefix r (c # cs) then Some (c # cs) else rx_search r cs)"

definition statementYear :: "TextItem list \<Rightarrow> jsnum" where
  \<comment> \<open>the year of the first date of the period on the first page, 2025 without a
      period. The first group of a match is two digits, white space, three letters, white
      space and four digits in one way only, and \<open>/\d{4}$/\<close> gives its last four digits.\<close>
  "statementYear firstPageItems =
     (case rx_search periodRgx (pageText firstPageItems) of
        None \<Rightarrow> Num 2025
      | Some u \<Rightarrow>
          parseInt (take 4 (dropWhile is_space (drop 3 (dropWhile is_space (drop 2 u))))))"

definition skipLastPage :: "TextItem list \<Rightarrow> bool" where
  \<comment> \<open>"Skip the last page if it's just a disclaimer"\<close>
  "skipLastPage items =
     (includesStr (toLowerCase (pageText items)) ''disclaimer''
      \<and> \<not> includesStr (pageText items) ''Tanggal''
      \<and> \<not> includesStr (pageText items) ''Date'')"

datatype strategy = RowReconstruction | DirectToken | PatternLine

definition tryAllParsers :: "TextItem list \<Rightarrow> jsnum \<Rightarrow> strategy list \<times> TrxRecord list" where
  \<comment> \<open>"Try all parsing methods": the records of the page, and the parsers that were
      called, in the order of the calls\<close>
  "tryAllParsers items year =
     (let standardRecs = parseMandiriPage items year in
      if length standardRecs > 0 then ([RowReconstruction], standardRecs)
      else
        let directRecs = parseDirectTransactions items year in
        if length directRecs > 0 then ([RowReconstruction, DirectToken], directRecs)
        else ([RowReconstruction, DirectToken, PatternLine], parsePatternBased items year))"

definition mandiriPageRecs ::
  "bool \<Rightarrow> TextItem list \<Rightarrow> jsnum \<Rightarrow> strategy list \<times> TrxRecord list"
where
  \<comment> \<open>the body of the loop over the pages; \<open>lastPage\<close> is \<open>pageNum === pdfdoc.numPages\<close>.
      A skipped page calls no parser and adds no record.\<close>
  "mandiriPageRecs lastPage items year =
     (if lastPage \<and> skipLastPage items then ([], []) else tryAllParsers items year)"

definition parseMandiriStatement :: "TextItem list \<Rightarrow> TextItem list list \<Rightarrow> TrxRecord list" where
  "parseMandiriStatement firstPage otherPages =
     (let pages = firstPage # otherPages;
          year = statementYear firstPage
      in concat (map (\<lambda>(i, items). snd (mandiriPageRecs (i + 1 = length pages) items year))
                     (enumerate 0 pages)))"

section \<open>Example pages\<close>

definition tok :: "string \<Rightarrow> TextItem" where
  \<comment> \<open>a token of the sequential format, where positions play no role\<close>
  "tok s = \<lparr>str = s, tx = 0, ty = 0\<rparr>"

definition cell :: "string \<Rightarrow> rat \<Rightarrow> rat \<Rightarrow> TextItem" where
  "cell s px py = \<lparr>str = s, tx = px, ty = py\<rparr>"


definition bca_header :: "TextItem list" where
  \<comment> \<open>the period anchor with its year, and the two column headers\<close>
  "bca_header = map tok [''PERIODE'', ''JANUARI 2024'', ''TANGGAL'', ''KETERANGAN'']"

definition bca_credit_at_end :: "TextItem list" where
  \<comment> \<open>a page that ends with the balance of a credit line\<close>
  "bca_credit_at_end =
     bca_header @ map tok [''01/01'', ''SETORAN TUNAI'', ''50,000.00'', ''950,000.00'']"

definition bca_tarikan :: "TextItem list" where
  "bca_tarikan =
     bca_header @ map tok [''01/01'', ''TARIKAN ATM'', ''50,000.00'', ''DB'', ''950,000.00'']"

definition bca_tarikan_spaced :: "TextItem list" where
  \<comment> \<open>the same line with one token between the amount and the marker\<close>
  "bca_tarikan_spaced =
     bca_header
     @ map tok [''01/01'', ''TARIKAN ATM'', ''50,000.00'', '' '', ''DB'', ''950,000.00'']"

definition bca_saldo_split :: "TextItem list" where
  \<comment> \<open>the description continues after the balance\<close>
  "bca_saldo_split =
     bca_header @ map tok [''01/01'', ''SALDO'', ''1.00'', ''2.00'', ''AWAL'', ''CR'']"

definition mandiri_sheet :: "TextItem list" where
  \<comment> \<open>a header row and one data row below it, its cells from left to right\<close>
  "mandiri_sheet =
     [cell ''No'' 10 700, cell ''Tanggal'' 50 700,
      cell ''1'' 10 680, cell ''01 Jan 2025'' 50 680, cell ''TRANSFER MASUK'' 150 680,
      cell ''+1.000.000,00'' 300 680, cell ''5.000.000,00'' 400 680]"

definition plus_line :: "TextItem list" where
  \<comment> \<open>one data line with a credit written with its sign, and no header\<close>
  "plus_line =
     [cell ''1'' 10 680, cell ''01 Jan 2025'' 50 680, cell ''TRANSFER MASUK'' 150 680,
      cell ''+1.000.000,00'' 300 680, cell ''5.000.000,00'' 400 680]"

definition bca_no_year :: "TextItem list" where
  \<comment> \<open>no token after the period anchor contains "20"\<close>
  "bca_no_year =
     map tok [''PERIODE'', ''JANUARI'', ''TANGGAL'', ''KETERANGAN'',
              ''01/01'', ''SETORAN TUNAI'', ''50,000.00'', ''950,000.00'', ''CR'',
              ''Bersambung ke halaman berikut'']"

definition text_only :: "TextItem list" where
  "text_only = [cell ''Disclaimer'' 10 700]"


definition minus_line :: "TextItem list" where
  \<comment> \<open>one data line with a debit, and no header\<close>
  "minus_line =
     [cell ''1'' 10 680, cell ''01 Jan 2025'' 50 680, cell ''TARIK TUNAI'' 150 680,
      cell ''-50.000,00'' 300 680, cell ''950.000,00'' 400 680]"

definition disclaimer_page :: "TextItem list" where
  \<comment> \<open>a page with the word, no column header, and a dated line with two numbers\<close>
  "disclaimer_page = cell ''Disclaimer'' 10 700 # minus_line"

section \<open>What every record of the sequential parser satisfies\<close>

text \<open>
  A record is opened at a date token with the year of the page and the balance 0.0; later
  steps change its description, kind and amount, and its balance only to the value of a
  money token.
\<close>

definition good :: "jsnum \<Rightarrow> TextItem list \<Rightarrow> TrxRecord \<Rightarrow> bool" where
  "good year items r =
     (tahun r = year \<and> rx_test dateRgx (tgl r)
      \<and> (saldo r = Num 0
         \<or> (\<exists>t \<in> set items. rx_test moneyRgx (str t)
               \<and> saldo r = parseFloat (remove_char CHR '','' (str t)))))"

definition page_good :: "jsnum \<Rightarrow> TextItem list \<Rightarrow> page_state \<Rightarrow> bool" where
  "page_good year items st =
     ((\<forall>r \<in> set (txrecs st). good year items r)
      \<and> (\<forall>r. currentRecord st = Some r \<longrightarrow> good year items r))"

lemma good_update [simp]:
  "good year items (r\<lparr>ket := k\<rparr>) = good year items r"
  "good year items (r\<lparr>type := k2\<rparr>) = good year items r"
  "good year items (r\<lparr>mutasi := m\<rparr>) = good year items r"
  by (simp_all add: good_def)

lemma good_saldo:
  "good year items r \<Longrightarrow> i < length items \<Longrightarrow> rx_test moneyRgx (str (items ! i))
     \<Longrightarrow> good year items (r\<lparr>saldo := parseFloat (remove_char CHR '','' (str (items ! i)))\<rparr>)"
  unfolding good_def using nth_mem by fastforce

lemma detailStep_good:
  assumes "scanIdx st < length items" and "good year items (scanRecord st)"
    and "detailStep items st = Continue st' \<or> detailStep items st = Break st'"
  shows "good year items (scanRecord st')"
  using assms
  by (auto simp: detailStep_def after_item_def Let_def good_saldo split: if_splits)


lemma scanDetail_good:
  "scanDetail items st = Inr st' \<Longrightarrow> good year items (scanRecord st)
     \<Longrightarrow> good year items (scanRecord st')"
proof (induction items st rule: scanDetail.induct)
  case (1 items st)
  show ?case
  proof (cases "scanIdx st < length items")
    case False
    with "1.prems" show ?thesis by (simp add: scanDetail.simps)
  next
    case True
    show ?thesis
    proof (cases "detailStep items st")
      case (Continue s)
      with True "1.prems" have run: "scanDetail items s = Inr st'"
        by (simp add: scanDetail.simps [of items st])
      from True "1.prems"(2) Continue have "good year items (scanRecord s)"
        by (blast intro: detailStep_good)
      with "1.IH" True Continue run show ?thesis by simp
    next
      case (Break s)
      with True "1.prems" have "s = st'" by (simp add: scanDetail.simps [of items st])
      with True "1.prems"(2) Break show ?thesis
        by (blast intro: detailStep_good)
    next
      case (Throw e)
      with True "1.prems" show ?thesis by (simp add: scanDetail.simps [of items st])
    qed
  qed
qed

lemma good_add_details [simp]: "good year items (add_details ds r) = good year items r"
  by (simp add: add_details_def)

lemma good_mark_saldo_awal [simp]: "good year items (mark_saldo_awal r) = good year items r"
  by (simp add: mark_saldo_awal_def)

lemma push_current_good:
  "page_good year items st \<Longrightarrow>
     \<forall>r \<in> set (push_current (currentRecord st) (txrecs st)). good year items r"
  by (auto simp: page_good_def push_current_def split: option.splits)

lemma pageStep_good:
  assumes "page_good year items st"
    and "pageStep year items st = Continue st' \<or> pageStep year items st = Break st'"
  shows "page_good year items st'"
proof -
  let ?item = "str (items ! currentIdx st)"
  show ?thesis
  proof (cases "end_marker ?item")
    case True
    with assms show ?thesis by (simp add: pageStep_def Let_def)
  next
    case nomark: False
    show ?thesis
    proof (cases "rx_test dateRgx ?item")
      case False
      with nomark assms show ?thesis
        by (auto simp: pageStep_def Let_def page_good_def split: option.splits if_splits)
    next
      case True
      have fresh: "good year items
          \<lparr>tahun = year, tgl = ?item, ket = k, type = credit, mutasi = Num 0, saldo = Num 0\<rparr>"
        for k
        using True by (simp add: good_def)
      from assms(1) have pushed:
        "\<forall>r \<in> set (push_current (currentRecord st) (txrecs st)). good year items r"
        by (rule push_current_good)
      from nomark True assms(2) fresh pushed show ?thesis
        by (auto simp: pageStep_def Let_def page_good_def
                 split: sum.splits if_splits dest!: scanDetail_good [where year = year])
    qed
  qed
qed

lemma scanPage_good:
  "scanPage year items st = Inr st' \<Longrightarrow> page_good year items st
     \<Longrightarrow> page_good year items st'"
proof (induction year items st rule: scanPage.induct)
  case (1 year items st)
  show ?case
  proof (cases "currentIdx st < length items")
    case False
    with "1.prems" show ?thesis by (simp add: scanPage.simps)
  next
    case True
    show ?thesis
    proof (cases "pageStep year items st")
      case (Continue s)
      with True "1.prems" have run: "scanPage year items s = Inr st'"
        by (simp add: scanPage.simps [of year items st])
      from "1.prems"(2) Continue have "page_good year items s"
        by (blast intro: pageStep_good)
      with "1.IH" True Continue run show ?thesis by simp
    next
      case (Break s)
      with True "1.prems" have "s = st'" by (simp add: scanPage.simps [of year items st])
      with "1.prems"(2) Break show ?thesis by (blast intro: pageStep_good)
    next
      case (Throw e)
      with True "1.prems" show ?thesis by (simp add: scanPage.simps [of year items st])
    qed
  qed
qed

lemma parseBCARows_good:
  assumes "parseBCARows year items = Inr recs"
  shows "\<forall>r \<in> set recs. good year items r"
proof -
  have init: "page_good year items \<lparr>currentIdx = i, currentRecord = None, txrecs = []\<rparr>" for i
    by (simp add: page_good_def)
  from assms show ?thesis
    by (auto simp: parseBCARows_def split: option.splits sum.splits
             dest!: scanPage_good [OF _ init] push_current_good)
qed



subsection \<open>The year of a page without one\<close>

lemma next_nine:
  "list_all P (take 9 (drop (p + 1) items))
     = (\<forall>i. p < i \<and> i < p + 10 \<and> i < length items \<longrightarrow> P (items ! i))"
proof
  assume all: "list_all P (take 9 (drop (p + 1) items))"
  show "\<forall>i. p < i \<and> i < p + 10 \<and> i < length items \<longrightarrow> P (items ! i)"
  proof (intro allI impI)
    fix i assume i: "p < i \<and> i < p + 10 \<and> i < length items"
    define j where "j = i - (p + 1)"
    with i have j: "j < 9" "p + 1 + j = i" "j < length (take 9 (drop (p + 1) items))"
      by auto
    from all j(3) have "P (take 9 (drop (p + 1) items) ! j)"
      unfolding list_all_length by blast
    moreover from j i have "take 9 (drop (p + 1) items) ! j = items ! i"
      by (simp add: add.commute [of 1 p])
    ultimately show "P (items ! i)" by simp
  qed
next
  assume idx: "\<forall>i. p < i \<and> i < p + 10 \<and> i < length items \<longrightarrow> P (items ! i)"
  show "list_all P (take 9 (drop (p + 1) items))"
    unfolding list_all_length
  proof (intro allI impI)
    fix j assume "j < length (take 9 (drop (p + 1) items))"
    then have j: "j < 9" "p + 1 + j < length items" by auto
    with idx have "P (items ! (p + 1 + j))" by simp
    moreover from j have "take 9 (drop (p + 1) items) ! j = items ! (p + 1 + j)"
      by simp
    ultimately show "P (take 9 (drop (p + 1) items) ! j)" by simp
  qed
qed

lemma findPeriode_none:
  assumes "\<forall>i. p < i \<and> i < p + 10 \<and> i < length items
              \<longrightarrow> \<not> includesStr (str (items ! i)) ''20''"
  shows "findPeriode items p = []"
proof -
  from assms have "list_all (\<lambda>t. \<not> includesStr (str t) ''20'') (take 9 (drop (p + 1) items))"
    by (simp only: next_nine)
  then have "find (\<lambda>t. includesStr (str t) ''20'') (take 9 (drop (p + 1) items)) = None"
    by (simp add: find_None_iff list_all_iff)
  then show ?thesis by (simp add: findPeriode_def)
qed

lemma year_of_empty_periode: "parseInt (last (split CHR '' '' (trim []))) = NaN"
  by code_simp

section \<open>The words of a pattern\<close>

























subsection \<open>The records that are opened are the records that are returned\<close>





definition key :: "TrxRecord \<Rightarrow> string \<times> jsnum \<times> jsnum" where
  "key r = (tgl r, mutasi r, saldo r)"

lemma key_update [simp]: "key (r\<lparr>ket := k\<rparr>) = key r"
  by (simp add: key_def)

lemma tgl_add_details [simp]: "tgl (add_details ds r) = tgl r"
  by (simp add: add_details_def)

lemma tgl_mark_saldo_awal [simp]: "tgl (mark_saldo_awal r) = tgl r"
  by (simp add: mark_saldo_awal_def)










subsection \<open>Lines of a known shape\<close>









section \<open>What every record of the other three parsers satisfies\<close>


lemma set_insert_by [simp]: "set (insert_by cmp v ws) = insert v (set ws)"
  by (induction ws) auto


lemma length_insert_by [simp]: "length (insert_by cmp v ws) = Suc (length ws)"
  by (induction ws) auto

lemma length_jsort [simp]: "length (jsort cmp xs) = length xs"
  by (induction xs) (auto simp: jsort_def)









lemma digits_val_Nil [simp]: "digits_val [] = 0"
  by (simp add: digits_val_def)























subsection \<open>Lower case and the column headers\<close>

lemma startsWith_map: "startsWith s p \<Longrightarrow> startsWith (map f s) (map f p)"
  by (induction s p rule: startsWith.induct) auto

lemma includesStr_map: "includesStr s p \<Longrightarrow> includesStr (map f s) (map f p)"
proof (induction s)
  case Nil
  then show ?case by simp
next
  case (Cons c cs)
  then show ?case using startsWith_map [of "c # cs" p f] by auto
qed

lemma includesStr_lower:
  "includesStr s p \<Longrightarrow> includesStr (toLowerCase s) (toLowerCase p)"
  unfolding toLowerCase_def by (rule includesStr_map)

lemma lower_headers:
  "toLowerCase ''Tanggal'' = ''tanggal''" "toLowerCase ''Date'' = ''date''"
  by code_simp+

section \<open>The claims\<close>

text \<open>
  C2. The sequential parser should return a list of records for every token list and
  never throw. It throws on a page that ends one token after a money token: the test
  for the debit marker checks that \<open>currentIdx + 1\<close> is inside the array and then reads
  \<open>items[currentIdx + 2].str\<close>. A credit line, amount then balance, at the very end of a
  page is such an input.
\<close>

theorem parseBCAItems_throws:
  "parseBCAItems bca_credit_at_end = Inl TypeError"
  by code_simp

text \<open>
  C3. After valid anchors, the tokens "01/01", "TARIKAN ATM", "50,000.00", "DB",
  "950,000.00" should give one debit record with amount 50000 and balance 950000. The
  parser gives one record with that amount and balance, but of kind credit: the marker is
  looked for two tokens after the amount, where the balance stands. With one more token
  between the amount and the marker the record is a debit.
\<close>

theorem parseBCAItems_adjacent_DB:
  "parseBCAItems bca_tarikan =
     Inr [\<lparr>tahun = Num 2024, tgl = ''01/01'', ket = ''TARIKAN ATM'', type = credit,
           mutasi = Num 50000, saldo = Num 950000\<rparr>]
   \<and> parseBCAItems bca_tarikan_spaced =
     Inr [\<lparr>tahun = Num 2024, tgl = ''01/01'', ket = ''TARIKAN ATM'', type = debit,
           mutasi = Num 50000, saldo = Num 950000\<rparr>]"
  by code_simp

text \<open>
  C6. For a header row and the data row "1", "01 Jan 2025", "TRANSFER MASUK",
  "+1.000.000,00", "5.000.000,00" the row parser should emit one credit record with
  amount 1000000, balance 5000000 and the description "TRANSFER MASUK". Kind, amount
  and balance are as claimed; the description is "1 TRANSFER MASUK", since the cell
  with the row number is not taken out of the description cells.
\<close>

theorem parseMandiriPage_row_number_in_description:
  "parseMandiriPage mandiri_sheet (Num 2025) =
     [\<lparr>tahun = Num 2025, tgl = ''01 Jan 2025'', ket = ''1 TRANSFER MASUK'', type = credit,
       mutasi = Num 1000000, saldo = Num 5000000\<rparr>]"
  by code_simp

text \<open>
  C8. A record whose complete description is "saldo awal", in any case, should have the
  kind \<open>saldo_awal\<close>. The sequential parser compares the description when the inner scan
  of a transaction ends; tokens that follow the balance are appended to the description
  afterwards and the kind is not looked at again.
\<close>

theorem parseBCAItems_late_saldo_awal:
  "parseBCAItems bca_saldo_split =
     Inr [\<lparr>tahun = Num 2024, tgl = ''01/01'', ket = ''SALDO AWAL'', type = credit,
           mutasi = Num 1, saldo = Num 2\<rparr>]"
  by code_simp

text \<open>
  C9. The money pattern of every parser of the second format should accept values with a
  leading plus or minus sign and values without a sign. The patterns of the row parser
  and of the direct parser accept "+1.000.000,00"; the pattern of the pattern-line parser
  allows a minus sign only, so a line whose amount carries a plus sign has one number
  left and is dropped.
\<close>

theorem parsePatternBased_rejects_plus:
  "rx_test posNumRgx ''+1.000.000,00'' \<and> rx_test signedNumRgx ''+1.000.000,00''
   \<and> rx_test minusNumRgx ''-1.000.000,00'' \<and> rx_test minusNumRgx ''1.000.000,00''
   \<and> \<not> rx_test minusNumRgx ''+1.000.000,00''
   \<and> parsePatternBased plus_line (Num 2025) = []"
  by code_simp


text \<open>
  C10. When the "PERIODE" anchor is there and none of the nine tokens after it (as far as
  the page goes) contains "20", the period string stays empty and its year is \<open>NaN\<close>.
  The parser does not return or fail at this point and puts no other year in its place:
  it goes on with the year \<open>NaN\<close>, which every record it emits carries.
\<close>

theorem parseBCAItems_year_NaN:
  assumes "findIndex (\<lambda>r idx. str r = ''PERIODE'') items = Some p"
    and "\<forall>i. p < i \<and> i < p + 10 \<and> i < length items
              \<longrightarrow> \<not> includesStr (str (items ! i)) ''20''"
  shows "parseBCAItems items = parseBCARows NaN items
         \<and> (\<forall>recs. parseBCAItems items = Inr recs \<longrightarrow> (\<forall>r \<in> set recs. tahun r = NaN))"
proof -
  from assms(2) have "findPeriode items p = []" by (rule findPeriode_none)
  with assms(1) have eq: "parseBCAItems items = parseBCARows NaN items"
    by (simp add: parseBCAItems_def year_of_empty_periode)
  moreover have "\<forall>r \<in> set recs. tahun r = NaN" if "parseBCARows NaN items = Inr recs" for recs
    using parseBCARows_good [OF that] by (simp add: good_def)
  ultimately show ?thesis by simp
qed

theorem parseBCAItems_year_NaN_witness:
  "findIndex (\<lambda>r idx. str r = ''PERIODE'') bca_no_year = Some 0
   \<and> parseBCAItems bca_no_year = parseBCARows NaN bca_no_year
   \<and> parseBCAItems bca_no_year =
       Inr [\<lparr>tahun = NaN, tgl = ''01/01'', ket = ''SETORAN TUNAI'', type = credit,
             mutasi = Num 50000, saldo = Num 950000\<rparr>]"
proof -
  have idx: "findIndex (\<lambda>r idx. str r = ''PERIODE'') bca_no_year = Some 0" by code_simp
  have "list_all (\<lambda>t. \<not> includesStr (str t) ''20'') (take 9 (drop (0 + 1) bca_no_year))"
    by code_simp
  then have none: "\<forall>i. 0 < i \<and> i < 0 + 10 \<and> i < length bca_no_year
                \<longrightarrow> \<not> includesStr (str (bca_no_year ! i)) ''20''"
    by (simp only: next_nine)
  have run: "parseBCAItems bca_no_year =
       Inr [\<lparr>tahun = NaN, tgl = ''01/01'', ket = ''SETORAN TUNAI'', type = credit,
             mutasi = Num 50000, saldo = Num 950000\<rparr>]" by code_simp
  from parseBCAItems_year_NaN [OF idx none] idx run show ?thesis by simp
qed



text \<open>
  C7, as stated: on every page of the second format the result is that of the first
  parser in the chain that finds a record. A last page whose text contains "disclaimer"
  and neither "Tanggal" nor "Date" is not parsed at all: on such a page with a dated line
  and two numbers the direct parser would find a record, and the page adds none.
\<close>

theorem mandiriPageRecs_fallback_counterexample:
  "parseMandiriPage disclaimer_page (Num 2025) = []
   \<and> parseDirectTransactions disclaimer_page (Num 2025) =
     [\<lparr>tahun = Num 2025, tgl = ''01 Jan'', ket = ''Disclaimer 1 TARIK TUNAI'', type = debit,
       mutasi = Num 50000, saldo = Num 950000\<rparr>]
   \<and> mandiriPageRecs True disclaimer_page (Num 2025) = ([], [])
   \<and> parseMandiriStatement mandiri_sheet [disclaimer_page] =
     [\<lparr>tahun = Num 2025, tgl = ''01 Jan 2025'', ket = ''1 TRANSFER MASUK'', type = credit,
       mutasi = Num 1000000, saldo = Num 5000000\<rparr>]"
  by code_simp

text \<open>
  C7, amended. A page that is not the last one, or whose text does not contain
  "disclaimer", or contains "Tanggal" or "Date", gets the records of the row parser when
  it finds any; otherwise those of the direct parser when it finds any; otherwise those
  of the pattern-line parser; a later parser is called only when every earlier one
  returned no record. A last page whose text contains "disclaimer" and, in any case of the
  letters, neither "tanggal" nor "date" is skipped: no parser is called and it adds no
  record.
\<close>

theorem mandiriPageRecs_fallback:
  "((\<not> lastPage \<or> \<not> includesStr (toLowerCase (pageText items)) ''disclaimer''
      \<or> includesStr (pageText items) ''Tanggal'' \<or> includesStr (pageText items) ''Date'')
    \<longrightarrow>
      (parseMandiriPage items year \<noteq> [] \<longrightarrow>
         mandiriPageRecs lastPage items year = ([RowReconstruction], parseMandiriPage items year))
      \<and> (parseMandiriPage items year = [] \<and> parseDirectTransactions items year \<noteq> [] \<longrightarrow>
         mandiriPageRecs lastPage items year =
           ([RowReconstruction, DirectToken], parseDirectTransactions items year))
      \<and> (parseMandiriPage items year = [] \<and> parseDirectTransactions items year = [] \<longrightarrow>
         mandiriPageRecs lastPage items year =
           ([RowReconstruction, DirectToken, PatternLine], parsePatternBased items year)))
   \<and> (lastPage \<and> includesStr (toLowerCase (pageText items)) ''disclaimer''
      \<and> \<not> includesStr (toLowerCase (pageText items)) ''tanggal''
      \<and> \<not> includesStr (toLowerCase (pageText items)) ''date''
    \<longrightarrow> mandiriPageRecs lastPage items year = ([], []))"
proof (intro conjI impI)
  assume "lastPage \<and> includesStr (toLowerCase (pageText items)) ''disclaimer''
      \<and> \<not> includesStr (toLowerCase (pageText items)) ''tanggal''
      \<and> \<not> includesStr (toLowerCase (pageText items)) ''date''"
  moreover from this have "\<not> includesStr (pageText items) ''Tanggal''"
    and "\<not> includesStr (pageText items) ''Date''"
    using includesStr_lower [of "pageText items" "''Tanggal''"]
      includesStr_lower [of "pageText items" "''Date''"]
    by (auto simp: lower_headers)
  ultimately show "mandiriPageRecs lastPage items year = ([], [])"
    by (simp add: mandiriPageRecs_def skipLastPage_def)
qed (auto simp: mandiriPageRecs_def skipLastPage_def tryAllParsers_def Let_def)

theorem mandiriPageRecs_fallback_witness:
  "mandiriPageRecs True mandiri_sheet (Num 2025) =
     ([RowReconstruction],
      [\<lparr>tahun = Num 2025, tgl = ''01 Jan 2025'', ket = ''1 TRANSFER MASUK'', type = credit,
        mutasi = Num 1000000, saldo = Num 5000000\<rparr>])
   \<and> mandiriPageRecs True plus_line (Num 2025) =
     ([RowReconstruction, DirectToken],
      [\<lparr>tahun = Num 2025, tgl = ''01 Jan'', ket = ''1 TRANSFER MASUK'', type = credit,
        mutasi = Num 1000000, saldo = Num 5000000\<rparr>])
   \<and> mandiriPageRecs False text_only (Num 2025) =
     ([RowReconstruction, DirectToken, PatternLine], [])
   \<and> mandiriPageRecs True text_only (Num 2025) = ([], [])"
proof -
  have row: "parseMandiriPage mandiri_sheet (Num 2025) =
     [\<lparr>tahun = Num 2025, tgl = ''01 Jan 2025'', ket = ''1 TRANSFER MASUK'', type = credit,
        mutasi = Num 1000000, saldo = Num 5000000\<rparr>]" by code_simp
  have header: "includesStr (pageText mandiri_sheet) ''Tanggal''" by code_simp
  have norow: "parseMandiriPage plus_line (Num 2025) = []" by code_simp
  have direct: "parseDirectTransactions plus_line (Num 2025) =
     [\<lparr>tahun = Num 2025, tgl = ''01 Jan'', ket = ''1 TRANSFER MASUK'', type = credit,
        mutasi = Num 1000000, saldo = Num 5000000\<rparr>]" by code_simp
  have plain: "\<not> includesStr (toLowerCase (pageText plus_line)) ''disclaimer''" by code_simp
  have none: "parseMandiriPage text_only (Num 2025) = []"
    "parseDirectTransactions text_only (Num 2025) = []"
    "parsePatternBased text_only (Num 2025) = []" by code_simp+
  have skip: "includesStr (toLowerCase (pageText text_only)) ''disclaimer''"
    "\<not> includesStr (toLowerCase (pageText text_only)) ''tanggal''"
    "\<not> includesStr (toLowerCase (pageText text_only)) ''date''" by code_simp+
  from mandiriPageRecs_fallback [of True mandiri_sheet "Num 2025"] row header
  have 1: "mandiriPageRecs True mandiri_sheet (Num 2025) =
     ([RowReconstruction],
      [\<lparr>tahun = Num 2025, tgl = ''01 Jan 2025'', ket = ''1 TRANSFER MASUK'', type = credit,
        mutasi = Num 1000000, saldo = Num 5000000\<rparr>])"
    by simp
  from mandiriPageRecs_fallback [of True plus_line "Num 2025"] norow direct plain
  have 2: "mandiriPageRecs True plus_line (Num 2025) =
     ([RowReconstruction, DirectToken],
      [\<lparr>tahun = Num 2025, tgl = ''01 Jan'', ket = ''1 TRANSFER MASUK'', type = credit,
        mutasi = Num 1000000, saldo = Num 5000000\<rparr>])"
    by simp
  from mandiriPageRecs_fallback [of False text_only "Num 2025"] none
  have 3: "mandiriPageRecs False text_only (Num 2025) =
     ([RowReconstruction, DirectToken, PatternLine], [])"
    by simp
  from mandiriPageRecs_fallback [of True text_only "Num 2025"] skip
  have 4: "mandiriPageRecs True text_only (Num 2025) = ([], [])"
    by simp
  from 1 2 3 4 show ?thesis by blast
qed










end
